theory Spec2Isabelle
  imports Main "HOL-Library.Word" "HOL-Library.AList"
begin

section \<open>The marketplace client module \<^verbatim>\<open>nft-ui/lib/zknft/index.ts\<close>\<close>

text \<open>
  The module is glue code over three collaborators that live outside the repository:
  the browser's \<^verbatim>\<open>localStorage\<close>, the \<^verbatim>\<open>fetch\<close> HTTP client and two libraries
  (\<^verbatim>\<open>@noble/ed25519\<close> and \<^verbatim>\<open>web3-utils\<close>). The embedding keeps every function of the
  module as it is written and makes the collaborators explicit:
  \<^item> the mutable surroundings are a record \<open>world\<close> that every operation takes and returns;
  \<^item> a JavaScript exception (a rejected promise, for the \<^verbatim>\<open>async\<close> functions) is the
    \<open>Inl\<close> side of a sum, so that \<^verbatim>\<open>try\<close>/\<^verbatim>\<open>catch\<close> is an ordinary function;
  \<^item> the library functions that the module calls are fields of a record \<open>libs\<close>, or are
    written out where a claim depends on what they compute.
  Console output is not modelled: \<^verbatim>\<open>console.log\<close> and \<^verbatim>\<open>console.error\<close> return
  normally and nothing in the module reads what they printed.
\<close>

subsection \<open>Values\<close>

type_synonym byte = "8 word"

text \<open>A thrown JavaScript value, kept as its message.\<close>

datatype exn = Exn string

text \<open>
  JSON values. Numbers are restricted to integers: the module stores and reads byte
  values only, and floating point is outside this model.
\<close>

datatype json =
    JNull
  | JBool bool
  | JNum int
  | JStr string
  | JArr "json list"
  | JObj "(string \<times> json) list"

text \<open>A JavaScript object with string keys, as the list of its own properties.\<close>

type_synonym obj = "(string \<times> json) list"

text \<open>
  A string held by \<^verbatim>\<open>localStorage\<close>, seen through \<^verbatim>\<open>JSON.parse\<close>: the empty string
  (the only falsy string), a text that \<^verbatim>\<open>JSON.parse\<close> rejects, or a text that parses
  to the given value. \<^verbatim>\<open>JSON.stringify\<close> of a JSON value \<open>v\<close> is a text that parses
  back to \<open>v\<close>.
\<close>

datatype stored = EmptyText | Malformed | JsonText json

definition JSON_parse :: "stored \<Rightarrow> exn + json" where
  "JSON_parse t =
     (case t of
        EmptyText \<Rightarrow> Inl (Exn ''SyntaxError: Unexpected end of JSON input'')
      | Malformed \<Rightarrow> Inl (Exn ''SyntaxError: Unexpected token'')
      | JsonText v \<Rightarrow> Inr v)"

definition JSON_stringify :: "json \<Rightarrow> exn + stored" where
  "JSON_stringify v = Inr (JsonText v)"

text \<open>A string is truthy unless it is empty.\<close>

definition truthy :: "stored \<Rightarrow> bool" where
  "truthy t = (t \<noteq> EmptyText)"

subsection \<open>HTTP\<close>

text \<open>\<^verbatim>\<open>BuyNftQuery\<close>, as the object literal of \<^verbatim>\<open>buyNFT\<close> builds it.\<close>

record BuyNftQuery =
  nft_id :: string
  payment_sender :: string
  nft_receiver :: string

text \<open>
  A call of \<^verbatim>\<open>fetch\<close>: the URL, and for the POST the object whose \<^verbatim>\<open>JSON.stringify\<close>
  is the body. The cache options change nothing that the module observes.
\<close>

datatype request = GET string | POST string BuyNftQuery

text \<open>
  What the module reads of a \<^verbatim>\<open>Response\<close>: the status, and what \<^verbatim>\<open>response.json()\<close>
  resolves to. The source types the parsed body as \<^verbatim>\<open>NFTResponseObject[]\<close>, whose
  declaration is not part of the sources; a listing record is an object with whatever
  properties the service sends.
\<close>

record response =
  status :: nat
  json_body :: "exn + obj list"

text \<open>\<^verbatim>\<open>response.ok\<close> of the Fetch standard: the status is in the range 200 to 299.\<close>

definition ok :: "response \<Rightarrow> bool" where
  "ok r = (200 \<le> status r \<and> status r \<le> 299)"

datatype fetch_outcome = Rejects exn | Resolves response

subsection \<open>The world and the libraries\<close>

text \<open>
  \<^item> \<open>storage\<close>: the contents of \<^verbatim>\<open>localStorage\<close>;
  \<^item> \<open>getItem_error\<close>, \<open>setItem_error\<close>: the exception that \<^verbatim>\<open>localStorage.getItem\<close>
    (\<^verbatim>\<open>setItem\<close>) throws, if the store is unavailable or full;
  \<^item> \<open>entropy\<close>: the bytes that the random generator will hand out next;
  \<^item> \<open>network\<close>: what a call of \<^verbatim>\<open>fetch\<close> comes back with;
  \<^item> \<open>fetched\<close>: the calls of \<^verbatim>\<open>fetch\<close> made so far, oldest first.
\<close>

record world =
  storage :: "string \<rightharpoonup> stored"
  getItem_error :: "exn option"
  setItem_error :: "exn option"
  entropy :: "byte list"
  network :: "request \<Rightarrow> fetch_outcome"
  fetched :: "request list"

text \<open>
  The library functions whose results the module only passes on:
  \<^item> \<open>getPublicKeyAsync\<close>: \<^verbatim>\<open>ed.getPublicKeyAsync\<close>, the key derivation of the signature
    scheme, a function of the private key bytes that may throw;
  \<^item> \<open>Uint8Array_other\<close>: \<^verbatim>\<open>new Uint8Array(v)\<close> for a value \<open>v\<close> that is not an array
    of integers;
  \<^item> \<open>hexToNumberString_other\<close>: \<^verbatim>\<open>hexToNumberString\<close> on a text that is not
    \<^verbatim>\<open>0x\<close> followed by at least one hexadecimal digit (the library's versions differ
    there).
\<close>

record libs =
  getPublicKeyAsync :: "byte list \<Rightarrow> exn + byte list"
  Uint8Array_other :: "json \<Rightarrow> exn + byte list"
  hexToNumberString_other :: "string \<Rightarrow> exn + string"

subsection \<open>Sequencing, exceptions and \<^verbatim>\<open>try\<close>/\<^verbatim>\<open>catch\<close>\<close>

type_synonym 'a io = "world \<Rightarrow> (exn + 'a) \<times> world"

definition ret :: "'a \<Rightarrow> 'a io" where
  "ret x = (\<lambda>w. (Inr x, w))"

text \<open>The outcome of a call that touches no state.\<close>

definition lift :: "exn + 'a \<Rightarrow> 'a io" where
  "lift r = (\<lambda>w. (r, w))"

text \<open>Run \<open>m\<close>; if it throws, the exception goes on and \<open>f\<close> is not run.\<close>

definition bindIO :: "'a io \<Rightarrow> ('a \<Rightarrow> 'b io) \<Rightarrow> 'b io" where
  "bindIO m f = (\<lambda>w. case m w of (Inl e, w') \<Rightarrow> (Inl e, w') | (Inr x, w') \<Rightarrow> f x w')"

text \<open>\<^verbatim>\<open>try { m } catch (e) { h e }\<close>: the handler starts from the world \<open>m\<close> left.\<close>

definition tryCatch :: "'a io \<Rightarrow> (exn \<Rightarrow> 'a io) \<Rightarrow> 'a io" where
  "tryCatch m h = (\<lambda>w. case m w of (Inl e, w') \<Rightarrow> h e w' | (Inr x, w') \<Rightarrow> (Inr x, w'))"

subsection \<open>The collaborators' operations\<close>

definition localStorage_getItem :: "string \<Rightarrow> stored option io" where
  "localStorage_getItem key =
     (\<lambda>w. case getItem_error w of
             Some e \<Rightarrow> (Inl e, w)
           | None \<Rightarrow> (Inr (storage w key), w))"

definition localStorage_setItem :: "string \<Rightarrow> stored \<Rightarrow> unit io" where
  "localStorage_setItem key t =
     (\<lambda>w. case setItem_error w of
             Some e \<Rightarrow> (Inl e, w)
           | None \<Rightarrow> (Inr (), w\<lparr>storage := (storage w)(key \<mapsto> t)\<rparr>))"

text \<open>
  Modelled from the spec: \<^verbatim>\<open>ed.utils.randomPrivateKey()\<close> "generates a new
  cryptographically random 32-byte seed". It takes the next 32 bytes of entropy, and
  throws when the generator cannot supply them.
\<close>

definition randomPrivateKey :: "byte list io" where
  "randomPrivateKey =
     (\<lambda>w. if length (entropy w) < 32
           then (Inl (Exn ''crypto.getRandomValues must be defined''), w)
           else (Inr (take 32 (entropy w)), w\<lparr>entropy := drop 32 (entropy w)\<rparr>))"

definition fetch :: "request \<Rightarrow> response io" where
  "fetch req =
     (\<lambda>w. case network w req of
             Rejects e \<Rightarrow> (Inl e, w\<lparr>fetched := fetched w @ [req]\<rparr>)
           | Resolves r \<Rightarrow> (Inr r, w\<lparr>fetched := fetched w @ [req]\<rparr>))"

text \<open>\<^verbatim>\<open>Uint8Array.from(xs)\<close> on an array of integers: each one modulo 256.\<close>

definition Uint8Array_from :: "int list \<Rightarrow> byte list" where
  "Uint8Array_from xs = map word_of_int xs"

text \<open>\<^verbatim>\<open>Array.from(bytes)\<close>: the array of the numbers 0 to 255.\<close>

definition Array_from :: "byte list \<Rightarrow> json" where
  "Array_from bs = JArr (map (\<lambda>b. JNum (uint b)) bs)"

fun num_of :: "json \<Rightarrow> int option" where
  "num_of (JNum n) = Some n"
| "num_of _ = None"

text \<open>
  \<^verbatim>\<open>new Uint8Array(v)\<close>: on an array of integers, the bytes of its elements modulo 256;
  on any other value, what the runtime makes of it.
\<close>

definition new_Uint8Array :: "libs \<Rightarrow> json \<Rightarrow> exn + byte list" where
  "new_Uint8Array L v =
     (case v of
        JArr xs \<Rightarrow>
          (case those (map num_of xs) of
             Some ns \<Rightarrow> Inr (map word_of_int ns)
           | None \<Rightarrow> Uint8Array_other L v)
      | _ \<Rightarrow> Uint8Array_other L v)"

subsection \<open>\<^verbatim>\<open>web3-utils\<close>: \<^verbatim>\<open>bytesToHex\<close> and \<^verbatim>\<open>hexToNumberString\<close>\<close>

text \<open>
  Both functions belong to the library \<^verbatim>\<open>web3-utils\<close>, not to the repository.
  Modelled from the spec: the identifier is "derived by hex-encoding the byte array then
  parsing as a big integer", big-endian; and from the library's contract:
  \<^verbatim>\<open>bytesToHex\<close> writes \<^verbatim>\<open>0x\<close> and then two lower-case digits for every byte, and
  \<^verbatim>\<open>hexToNumberString\<close> reads such a text and writes the number in decimal.
\<close>

definition hex_digit :: "nat \<Rightarrow> char" where
  "hex_digit n = ''0123456789abcdef'' ! n"

definition byte_hex :: "byte \<Rightarrow> string" where
  "byte_hex b = [hex_digit (unat b div 16), hex_digit (unat b mod 16)]"

definition bytesToHex :: "byte list \<Rightarrow> string" where
  "bytesToHex bs = ''0x'' @ concat (map byte_hex bs)"

definition hex_val :: "char \<Rightarrow> nat option" where
  "hex_val c =
     map_of
       [(CHR ''0'', 0), (CHR ''1'', 1), (CHR ''2'', 2), (CHR ''3'', 3), (CHR ''4'', 4),
        (CHR ''5'', 5), (CHR ''6'', 6), (CHR ''7'', 7), (CHR ''8'', 8), (CHR ''9'', 9),
        (CHR ''a'', 10), (CHR ''b'', 11), (CHR ''c'', 12), (CHR ''d'', 13),
        (CHR ''e'', 14), (CHR ''f'', 15),
        (CHR ''A'', 10), (CHR ''B'', 11), (CHR ''C'', 12), (CHR ''D'', 13),
        (CHR ''E'', 14), (CHR ''F'', 15)] c"

fun hex_parse :: "nat \<Rightarrow> string \<Rightarrow> nat option" where
  "hex_parse acc [] = Some acc"
| "hex_parse acc (c # cs) =
     (case hex_val c of
        None \<Rightarrow> None
      | Some d \<Rightarrow> hex_parse (16 * acc + d) cs)"

text \<open>The decimal numeral of a natural number, without leading zeros.\<close>

definition dec_digit :: "nat \<Rightarrow> char" where
  "dec_digit n = ''0123456789'' ! n"

fun dec :: "nat \<Rightarrow> string" where
  "dec n = (if n < 10 then [dec_digit n] else dec (n div 10) @ [dec_digit (n mod 10)])"

declare dec.simps [simp del]

definition hexToNumberString :: "libs \<Rightarrow> string \<Rightarrow> exn + string" where
  "hexToNumberString L s =
     (if take 2 s = ''0x'' \<and> drop 2 s \<noteq> []
      then (case hex_parse 0 (drop 2 s) of
              Some n \<Rightarrow> Inr (dec n)
            | None \<Rightarrow> hexToNumberString_other L s)
      else hexToNumberString_other L s)"

subsection \<open>The module\<close>

text \<open>
  \<^verbatim>\<open>setLocalStorage(key, value)\<close>: serialise and store; a failure is logged and dropped.
\<close>

definition setLocalStorage :: "string \<Rightarrow> json \<Rightarrow> unit io" where
  "setLocalStorage key v =
     tryCatch
       (bindIO (lift (JSON_stringify v)) (\<lambda>t. localStorage_setItem key t))
       (\<lambda>error. ret ())"

text \<open>
  \<^verbatim>\<open>getLocalStorage(key)\<close>: \<^verbatim>\<open>storedValue ? JSON.parse(storedValue) : null\<close>, and
  \<^verbatim>\<open>null\<close> when reading or parsing throws.
\<close>

definition getLocalStorage :: "string \<Rightarrow> json io" where
  "getLocalStorage key =
     tryCatch
       (bindIO (localStorage_getItem key)
          (\<lambda>storedValue.
             case storedValue of
               None \<Rightarrow> ret JNull
             | Some t \<Rightarrow> if truthy t then lift (JSON_parse t) else ret JNull))
       (\<lambda>error. ret JNull)"

text \<open>
  \<^verbatim>\<open>getPrivateKey()\<close>. In the branch that generates a key, the public key is derived
  only to be printed, but the \<^verbatim>\<open>await\<close> is not guarded: a failing derivation rejects.
\<close>

definition getPrivateKey :: "libs \<Rightarrow> byte list io" where
  "getPrivateKey L =
     bindIO (getLocalStorage ''my-private-key'')
       (\<lambda>seed.
          if seed = JNull
          then bindIO randomPrivateKey
                 (\<lambda>privKey.
                    bindIO (setLocalStorage ''my-private-key'' (Array_from privKey))
                      (\<lambda>_. bindIO (lift (getPublicKeyAsync L privKey))
                              (\<lambda>_. ret privKey)))
          else lift (new_Uint8Array L seed))"

text \<open>
  The loop of \<^verbatim>\<open>getForSaleNFTs\<close>: every record is spread into a new object, then
  \<^verbatim>\<open>price\<close> and \<^verbatim>\<open>currency_symbol\<close> are set (replacing a property of that name, or
  added after the others), and the object is pushed onto the result.
\<close>

definition with_price :: "obj \<Rightarrow> obj" where
  "with_price nft =
     AList.update ''currency_symbol'' (JStr ''PVL'') (AList.update ''price'' (JNum 10) nft)"

fun push_all :: "obj list \<Rightarrow> obj list \<Rightarrow> obj list" where
  "push_all nfts_to_return [] = nfts_to_return"
| "push_all nfts_to_return (nft # rest) = push_all (nfts_to_return @ [with_price nft]) rest"

definition getForSaleNFTs :: "obj list io" where
  "getForSaleNFTs =
     tryCatch
       (bindIO (fetch (GET ''http://127.0.0.1:7000/listed-nfts/''))
          (\<lambda>response.
             if ok response
             then bindIO (lift (json_body response)) (\<lambda>jsonData. ret (push_all [] jsonData))
             else ret []))
       (\<lambda>error. ret [])"

text \<open>\<^verbatim>\<open>buyNFT(paymentSender, nftId)\<close>: the whole body is inside \<^verbatim>\<open>try\<close>.\<close>

definition buyNFT :: "libs \<Rightarrow> string \<Rightarrow> int list \<Rightarrow> unit io" where
  "buyNFT L paymentSender nftId =
     tryCatch
       (bindIO (getPrivateKey L)
          (\<lambda>privateKey.
             bindIO (lift (getPublicKeyAsync L privateKey))
               (\<lambda>publicKey.
                  bindIO (lift (hexToNumberString L (bytesToHex (Uint8Array_from nftId))))
                    (\<lambda>n.
                       bindIO
                         (fetch (POST ''http://127.0.0.1:7000/buy-nft/''
                            \<lparr>nft_id = n, payment_sender = paymentSender,
                             nft_receiver = bytesToHex publicKey\<rparr>))
                         (\<lambda>response. ret ())))))
       (\<lambda>e. ret ())"

text \<open>
  \<^verbatim>\<open>checkPayment(nft_id)\<close>: there is no \<^verbatim>\<open>try\<close> around the call of \<^verbatim>\<open>fetch\<close>.
  The parameter is written \<open>nft_id'\<close>, since \<open>nft_id\<close> is the field of the query.
\<close>

definition checkPayment :: "libs \<Rightarrow> int list \<Rightarrow> bool io" where
  "checkPayment L nft_id' =
     bindIO (lift (hexToNumberString L (bytesToHex (Uint8Array_from nft_id'))))
       (\<lambda>n.
          bindIO (fetch (GET (''http://127.0.0.1:7000/check-payment/'' @ n)))
            (\<lambda>response. if ok response then ret True else ret False))"

text \<open>
  \<^verbatim>\<open>getMenu(type)\<close>. The enumeration \<^verbatim>\<open>MenuType\<close> is declared outside the sources; its
  values are any type \<open>'m\<close>, and \<open>main\<close> stands for \<^verbatim>\<open>MenuType.main\<close>.
\<close>

record Menu =
  title :: string
  path :: string

definition getMenu :: "'m \<Rightarrow> 'm \<Rightarrow> Menu list" where
  "getMenu main type =
     (if type = main
      then [\<lparr>title = ''Home'', path = ''/''\<rparr>, \<lparr>title = ''About'', path = ''/about''\<rparr>]
      else [\<lparr>title = ''Home'', path = ''/''\<rparr>, \<lparr>title = ''About'', path = ''/about''\<rparr>])"

subsection \<open>Concrete surroundings\<close>

text \<open>
  The examples below run the module in small concrete worlds. \<open>L0\<close> stands in for the
  libraries: its key derivation accepts a 32-byte private key and returns 32 bytes (every
  byte plus one). It is not Ed25519; the examples depend only on the length of what a
  derivation returns. \<open>world0\<close> is a browser with an empty store, 64 bytes of entropy (32
  zeros, then 32 ones) and a service that answers 200 with an empty list.
\<close>

definition L0 :: libs where
  "L0 =
     \<lparr>getPublicKeyAsync =
        (\<lambda>k. if length k = 32 then Inr (map (\<lambda>b. b + 1) k)
             else Inl (Exn ''private key of length 32 expected'')),
      Uint8Array_other = (\<lambda>v. Inr []),
      hexToNumberString_other = (\<lambda>s. Inl (Exn ''Invalid hex string''))\<rparr>"

definition world0 :: world where
  "world0 =
     \<lparr>storage = Map.empty,
      getItem_error = None,
      setItem_error = None,
      entropy = replicate 32 0 @ replicate 32 1,
      network = (\<lambda>req. Resolves \<lparr>status = 200, json_body = Inr []\<rparr>),
      fetched = []\<rparr>"

text \<open>\<open>world0\<close> after a first key has been generated and stored.\<close>

definition world1 :: world where
  "world1 =
     world0\<lparr>entropy := replicate 32 1,
            storage := [''my-private-key'' \<mapsto> JsonText (Array_from (replicate 32 0))]\<rparr>"

text \<open>The service cannot be reached: every call of \<^verbatim>\<open>fetch\<close> rejects.\<close>

definition offline :: world where
  "offline = world0\<lparr>network := (\<lambda>req. Rejects (Exn ''TypeError: Failed to fetch''))\<rparr>"

text \<open>The store refuses every write.\<close>

definition full_store :: world where
  "full_store = world0\<lparr>setItem_error := Some (Exn ''QuotaExceededError'')\<rparr>"

text \<open>The store holds a well-formed key but refuses every read.\<close>

definition locked_store :: world where
  "locked_store =
     world0\<lparr>getItem_error := Some (Exn ''SecurityError''),
            storage := [''my-private-key'' \<mapsto> JsonText (Array_from (replicate 32 9))]\<rparr>"

text \<open>
  A later moment of \<open>world1\<close>: the entry of the store is the same, everything else has
  changed (no entropy left, the store refuses writes, the service is out of reach, a call
  of \<^verbatim>\<open>fetch\<close> has been made).
\<close>

definition world2 :: world where
  "world2 =
     world1\<lparr>entropy := [],
            setItem_error := Some (Exn ''QuotaExceededError''),
            network := (\<lambda>req. Rejects (Exn ''TypeError: Failed to fetch'')),
            fetched := [GET ''http://127.0.0.1:7000/listed-nfts/'']\<rparr>"

text \<open>
  The libraries in a page without \<^verbatim>\<open>crypto.subtle\<close>: random bytes are available, but
  every key derivation throws.
\<close>

definition L1 :: libs where
  "L1 = L0\<lparr>getPublicKeyAsync := (\<lambda>k. Inl (Exn ''crypto.subtle must be defined''))\<rparr>"

text \<open>
  The service lists two records; the second one already has a \<^verbatim>\<open>price\<close> property.
\<close>

definition shop :: world where
  "shop =
     world0\<lparr>network := (\<lambda>req. Resolves
        \<lparr>status = 200,
         json_body = Inr [[(''name'', JStr ''ape'')],
                          [(''price'', JNum 3), (''name'', JStr ''cat'')]]\<rparr>)\<rparr>"

section \<open>What each function computes\<close>

subsection \<open>Storage\<close>

lemma getLocalStorage_eq:
  "getLocalStorage key w =
     (Inr (case getItem_error w of
             Some e \<Rightarrow> JNull
           | None \<Rightarrow> (case storage w key of
                        Some (JsonText v) \<Rightarrow> v
                      | _ \<Rightarrow> JNull)), w)"
  by (simp add: getLocalStorage_def tryCatch_def bindIO_def localStorage_getItem_def ret_def
      lift_def truthy_def JSON_parse_def split: option.splits stored.splits)

lemma setLocalStorage_eq:
  "setLocalStorage key v w =
     (Inr (), if setItem_error w = None then w\<lparr>storage := (storage w)(key \<mapsto> JsonText v)\<rparr> else w)"
  by (simp add: setLocalStorage_def tryCatch_def bindIO_def localStorage_setItem_def ret_def
      lift_def JSON_stringify_def split: option.splits)

subsection \<open>The identity key\<close>

lemma getPrivateKey_present:
  assumes "getLocalStorage ''my-private-key'' w = (Inr v, w)" and "v \<noteq> JNull"
  shows "getPrivateKey L w = (new_Uint8Array L v, w)"
  using assms by (simp add: getPrivateKey_def bindIO_def lift_def)

lemma getPrivateKey_absent:
  assumes "getLocalStorage ''my-private-key'' w = (Inr JNull, w)"
  shows "getPrivateKey L w =
     (if length (entropy w) < 32
      then (Inl (Exn ''crypto.getRandomValues must be defined''), w)
      else (case getPublicKeyAsync L (take 32 (entropy w)) of
              Inl e \<Rightarrow> Inl e
            | Inr pk \<Rightarrow> Inr (take 32 (entropy w)),
            if setItem_error w = None
            then w\<lparr>entropy := drop 32 (entropy w),
                   storage := (storage w)(''my-private-key'' \<mapsto>
                                JsonText (Array_from (take 32 (entropy w))))\<rparr>
            else w\<lparr>entropy := drop 32 (entropy w)\<rparr>))"
  using assms
  by (auto simp: getPrivateKey_def bindIO_def lift_def ret_def randomPrivateKey_def
      setLocalStorage_eq split: sum.splits)

text \<open>What \<^verbatim>\<open>Array.from\<close> wrote, \<^verbatim>\<open>new Uint8Array\<close> reads back.\<close>

lemma those_map_Some: "those (map (\<lambda>x. Some (f x)) xs) = Some (map f xs)"
  by (induction xs) simp_all

lemma new_Uint8Array_Array_from: "new_Uint8Array L (Array_from bs) = Inr bs"
  by (simp add: new_Uint8Array_def Array_from_def those_map_Some comp_def map_idI)

lemma Array_from_not_null: "Array_from bs \<noteq> JNull"
  by (simp add: Array_from_def)

lemma getPrivateKey_stable:
  assumes g: "getItem_error w = None" and s: "setItem_error w = None"
    and c1: "getPrivateKey L w = (Inr s1, w1)"
  shows "getPrivateKey L w1 = (Inr s1, w1)"
proof -
  obtain v where v: "getLocalStorage ''my-private-key'' w = (Inr v, w)"
    by (simp add: getLocalStorage_eq)
  show ?thesis
  proof (cases "v = JNull")
    case False
    with v c1 have "new_Uint8Array L v = Inr s1" and "w1 = w"
      by (simp_all add: getPrivateKey_present)
    with v False show ?thesis
      by (simp add: getPrivateKey_present)
  next
    case True
    with v have a: "getLocalStorage ''my-private-key'' w = (Inr JNull, w)"
      by simp
    from c1 s have k: "s1 = take 32 (entropy w)"
      and w1: "w1 = w\<lparr>entropy := drop 32 (entropy w),
                      storage := (storage w)(''my-private-key'' \<mapsto> JsonText (Array_from s1))\<rparr>"
      by (auto simp: getPrivateKey_absent [OF a] split: if_splits sum.splits)
    from g w1 have "getLocalStorage ''my-private-key'' w1 = (Inr (Array_from s1), w1)"
      by (simp add: getLocalStorage_eq)
    then show ?thesis
      by (simp add: getPrivateKey_present Array_from_not_null new_Uint8Array_Array_from)
  qed
qed

text \<open>
  After a call that returned \<open>s1\<close> from a store without faults, a call in any world that
  holds the same entry and can read it returns \<open>s1\<close> and changes nothing.
\<close>

lemma getPrivateKey_same_entry:
  assumes g: "getItem_error w = None" and s: "setItem_error w = None"
    and c1: "getPrivateKey L w = (Inr s1, w1)"
    and g2: "getItem_error w2 = None"
    and e: "storage w2 ''my-private-key'' = storage w1 ''my-private-key''"
  shows "getPrivateKey L w2 = (Inr s1, w2)"
proof -
  obtain v where v: "getLocalStorage ''my-private-key'' w = (Inr v, w)"
    by (simp add: getLocalStorage_eq)
  show ?thesis
  proof (cases "v = JNull")
    case False
    with v c1 have r: "new_Uint8Array L v = Inr s1" and "w1 = w"
      by (simp_all add: getPrivateKey_present)
    with e have "storage w2 ''my-private-key'' = storage w ''my-private-key''"
      by simp
    with v g g2 have "getLocalStorage ''my-private-key'' w2 = (Inr v, w2)"
      by (simp add: getLocalStorage_eq)
    with False r show ?thesis
      by (simp add: getPrivateKey_present)
  next
    case True
    with v have a: "getLocalStorage ''my-private-key'' w = (Inr JNull, w)"
      by simp
    from c1 s have "storage w1 ''my-private-key'' = Some (JsonText (Array_from s1))"
      by (auto simp: getPrivateKey_absent [OF a] split: if_splits sum.splits)
    with e g2 have "getLocalStorage ''my-private-key'' w2 = (Inr (Array_from s1), w2)"
      by (simp add: getLocalStorage_eq)
    then show ?thesis
      by (simp add: getPrivateKey_present Array_from_not_null new_Uint8Array_Array_from)
  qed
qed

lemma getPrivateKey_fetched: "fetched (snd (getPrivateKey L w)) = fetched w"
proof -
  obtain v where v: "getLocalStorage ''my-private-key'' w = (Inr v, w)"
    by (simp add: getLocalStorage_eq)
  show ?thesis
  proof (cases "v = JNull")
    case True
    with v show ?thesis by (simp add: getPrivateKey_absent)
  next
    case False
    with v show ?thesis by (simp add: getPrivateKey_present)
  qed
qed

subsection \<open>The three calls of the service\<close>

lemma push_all_eq: "push_all acc nfts = acc @ map with_price nfts"
  by (induction nfts arbitrary: acc) simp_all

lemma map_of_with_price:
  "map_of (with_price nft) =
     (map_of nft)(''price'' \<mapsto> JNum 10, ''currency_symbol'' \<mapsto> JStr ''PVL'')"
  by (simp add: with_price_def update_conv')

lemma getForSaleNFTs_eq:
  "getForSaleNFTs w =
     (Inr (case network w (GET ''http://127.0.0.1:7000/listed-nfts/'') of
             Rejects e \<Rightarrow> []
           | Resolves r \<Rightarrow>
               if ok r then (case json_body r of Inl e \<Rightarrow> [] | Inr recs \<Rightarrow> map with_price recs)
               else []),
      w\<lparr>fetched := fetched w @ [GET ''http://127.0.0.1:7000/listed-nfts/'']\<rparr>)"
  by (simp add: getForSaleNFTs_def tryCatch_def bindIO_def lift_def ret_def fetch_def push_all_eq
      split: sum.splits fetch_outcome.splits)

lemma buyNFT_eq:
  assumes "getPrivateKey L w = (r, v)"
  shows "buyNFT L paymentSender nftId w =
     (Inr (),
      case r of
        Inl e \<Rightarrow> v
      | Inr privateKey \<Rightarrow>
          (case getPublicKeyAsync L privateKey of
             Inl e \<Rightarrow> v
           | Inr publicKey \<Rightarrow>
               (case hexToNumberString L (bytesToHex (Uint8Array_from nftId)) of
                  Inl e \<Rightarrow> v
                | Inr n \<Rightarrow>
                    v\<lparr>fetched := fetched v @
                       [POST ''http://127.0.0.1:7000/buy-nft/''
                          \<lparr>nft_id = n, payment_sender = paymentSender,
                           nft_receiver = bytesToHex publicKey\<rparr>]\<rparr>)))"
  using assms
  by (simp add: buyNFT_def tryCatch_def bindIO_def lift_def ret_def fetch_def
      split: sum.splits fetch_outcome.splits)

lemma checkPayment_eq:
  "checkPayment L ids w =
     (case hexToNumberString L (bytesToHex (Uint8Array_from ids)) of
        Inl e \<Rightarrow> (Inl e, w)
      | Inr n \<Rightarrow>
          (case network w (GET (''http://127.0.0.1:7000/check-payment/'' @ n)) of
             Rejects e \<Rightarrow> Inl e
           | Resolves r \<Rightarrow> Inr (ok r),
           w\<lparr>fetched := fetched w @ [GET (''http://127.0.0.1:7000/check-payment/'' @ n)]\<rparr>))"
  by (simp add: checkPayment_def bindIO_def lift_def ret_def fetch_def
      split: sum.splits fetch_outcome.splits)

text \<open>When the service answers, \<open>checkPayment\<close> returns \<^verbatim>\<open>response.ok\<close>.\<close>

lemma checkPayment_status:
  assumes "hexToNumberString L (bytesToHex (Uint8Array_from ids)) = Inr n"
    and "network w (GET (''http://127.0.0.1:7000/check-payment/'' @ n)) = Resolves r"
  shows "fst (checkPayment L ids w) = Inr (ok r)"
  using assms by (simp add: checkPayment_eq)

subsection \<open>The identifier encoding\<close>

lemma hex_val_hex_digit: "n < 16 \<Longrightarrow> hex_val (hex_digit n) = Some n"
proof -
  have "list_all (\<lambda>n. hex_val (hex_digit n) = Some n) [0..<16]"
    by code_simp
  then show "n < 16 \<Longrightarrow> hex_val (hex_digit n) = Some n"
    by (simp add: list_all_iff)
qed

lemma hex_digit_mem: "n < 16 \<Longrightarrow> hex_digit n \<in> set ''0123456789abcdef''"
  unfolding hex_digit_def by (rule nth_mem) simp

text \<open>Reading back the digits of a byte array gives its big-endian value.\<close>

lemma hex_parse_bytes:
  "hex_parse acc (concat (map byte_hex bs)) = Some (foldl (\<lambda>a b. 256 * a + unat b) acc bs)"
proof (induction bs arbitrary: acc)
  case Nil
  show ?case by simp
next
  case (Cons b bs)
  have "unat b < 256"
    using unsigned_less [of b] by simp
  then have hi: "unat b div 16 < 16" and lo: "unat b mod 16 < 16"
    by simp_all
  have "16 * (16 * acc + unat b div 16) + unat b mod 16 = 256 * acc + unat b"
    by simp
  moreover have "hex_parse acc (concat (map byte_hex (b # bs))) =
      hex_parse (16 * (16 * acc + unat b div 16) + unat b mod 16) (concat (map byte_hex bs))"
    using hi lo by (simp add: byte_hex_def hex_val_hex_digit)
  ultimately show ?case
    using Cons.IH [of "256 * acc + unat b"] by (simp add: add.commute)
qed

lemma length_hex: "length (concat (map byte_hex bs)) = 2 * length bs"
  by (induction bs) (simp_all add: byte_hex_def)

lemma set_hex: "set (concat (map byte_hex bs)) \<subseteq> set ''0123456789abcdef''"
proof -
  define H where "H = set ''0123456789abcdef''"
  have digit: "hex_digit n \<in> H" if "n < 16" for n
    using that hex_digit_mem [of n] by (simp only: H_def)
  have "set (byte_hex b) \<subseteq> H" for b
  proof -
    have "unat b < 256"
      using unsigned_less [of b] by simp
    then have "unat b div 16 < 16" and "unat b mod 16 < 16"
      by simp_all
    then show ?thesis
      using digit [of "unat b div 16"] digit [of "unat b mod 16"]
      by (simp add: byte_hex_def)
  qed
  then have "set (concat (map byte_hex bs)) \<subseteq> H"
    by (induction bs) simp_all
  then show ?thesis
    by (simp only: H_def)
qed

lemma bytesToHex_shape:
  "take 2 (bytesToHex bs) = ''0x''
   \<and> length (drop 2 (bytesToHex bs)) = 2 * length bs
   \<and> set (drop 2 (bytesToHex bs)) \<subseteq> set ''0123456789abcdef''"
proof -
  have "drop 2 (bytesToHex bs) = concat (map byte_hex bs)" and "take 2 (bytesToHex bs) = ''0x''"
    by (simp_all add: bytesToHex_def)
  then show ?thesis
    using set_hex [of bs] length_hex [of bs] by (simp only: simp_thms)
qed

text \<open>
  On a non-empty byte array the two library calls compose to the decimal numeral of the
  big-endian value, whatever the library does elsewhere.
\<close>

lemma hexToNumberString_bytesToHex:
  assumes "bs \<noteq> []"
  shows "hexToNumberString L (bytesToHex bs) = Inr (dec (foldl (\<lambda>a b. 256 * a + unat b) 0 bs))"
proof -
  from assms have "concat (map byte_hex bs) \<noteq> []"
    by (cases bs) (simp_all add: byte_hex_def)
  then show ?thesis
    by (simp add: hexToNumberString_def bytesToHex_def hex_parse_bytes)
qed

lemma nft_id_123: "hexToNumberString L (bytesToHex (Uint8Array_from [1, 2, 3])) = Inr ''66051''"
proof -
  have val: "foldl (\<lambda>a b. 256 * a + unat b) 0 (Uint8Array_from [1, 2, 3]) = 66051"
    by (simp add: Uint8Array_from_def)
  have digits: "dec 66051 = ''66051''"
    by (simp add: dec.simps dec_digit_def)
  have "Uint8Array_from [1, 2, 3] \<noteq> []"
    by (simp add: Uint8Array_from_def)
  then have "hexToNumberString L (bytesToHex (Uint8Array_from [1, 2, 3])) =
      Inr (dec (foldl (\<lambda>a b. 256 * a + unat b) 0 (Uint8Array_from [1, 2, 3])))"
    by (rule hexToNumberString_bytesToHex)
  then show ?thesis
    by (simp only: val digits)
qed

subsection \<open>The concrete worlds\<close>

lemma world0_key: "getPrivateKey L0 world0 = (Inr (replicate 32 0), world1)"
proof -
  have "getLocalStorage ''my-private-key'' world0 = (Inr JNull, world0)"
    by (simp add: getLocalStorage_eq world0_def)
  then show ?thesis
    by (simp add: getPrivateKey_absent) (simp add: world0_def world1_def L0_def)
qed

lemma world1_key: "getPrivateKey L0 world1 = (Inr (replicate 32 0), world1)"
proof -
  have "getItem_error world0 = None" and "setItem_error world0 = None"
    by (simp_all add: world0_def)
  then show ?thesis
    using world0_key by (rule getPrivateKey_stable)
qed

lemma L0_public_key: "getPublicKeyAsync L0 (replicate 32 0) = Inr (replicate 32 1)"
  by (simp add: L0_def)

lemma hex_ones:
  "bytesToHex (replicate 32 1) =
     ''0x0101010101010101010101010101010101010101010101010101010101010101''"
  by code_simp

lemma world0_buyNFT:
  "buyNFT L0 ''addr1'' [1, 2, 3] world0 =
     (Inr (),
      world1\<lparr>fetched :=
        [POST ''http://127.0.0.1:7000/buy-nft/''
           \<lparr>nft_id = ''66051'', payment_sender = ''addr1'',
            nft_receiver = bytesToHex (replicate 32 1)\<rparr>]\<rparr>)"
  by (simp add: buyNFT_eq [OF world0_key] L0_public_key nft_id_123)
    (simp add: world1_def world0_def)

lemma world0_fetched: "fetched world0 = []"
  by (simp add: world0_def)

lemma world1_fetched: "fetched world1 = []"
  by (simp add: world1_def world0_def)

section \<open>The claims\<close>

subsection \<open>The menu\<close>

text \<open>
  Claim C9. The result of \<open>getMenu\<close> does not depend on its argument: for every menu type
  it is the list of the two entries Home (path \<^verbatim>\<open>/\<close>) and About (path \<^verbatim>\<open>/about\<close>),
  and the two branches of the conditional give the same value.
\<close>

theorem getMenu_constant:
  "getMenu main type =
     [\<lparr>title = ''Home'', path = ''/''\<rparr>, \<lparr>title = ''About'', path = ''/about''\<rparr>]
   \<and> getMenu main type = getMenu main main"
  by (simp add: getMenu_def)

subsection \<open>Payment status\<close>

text \<open>
  Claim C1 says that \<open>checkPayment\<close> never rejects and turns a failing \<^verbatim>\<open>fetch\<close> into
  \<^verbatim>\<open>false\<close>. The function has no \<^verbatim>\<open>try\<close>: with the service out of reach, the call
  for the identifier bytes 1, 2, 3 rejects with the error of \<^verbatim>\<open>fetch\<close>. (When the
  service answers, the result is \<^verbatim>\<open>response.ok\<close>: lemma \<open>checkPayment_status\<close>.)
\<close>

theorem checkPayment_rejects_when_fetch_throws:
  "checkPayment L0 [1, 2, 3] offline =
     (Inl (Exn ''TypeError: Failed to fetch''),
      offline\<lparr>fetched := [GET ''http://127.0.0.1:7000/check-payment/66051'']\<rparr>)"
  by (simp add: checkPayment_eq nft_id_123) (simp add: offline_def world0_def)

subsection \<open>The purchase request\<close>

text \<open>
  Claim C2, amended. Whenever the identity key is available and its public key has 32
  bytes, \<open>buyNFT\<close> for the identifier bytes 1, 2, 3 and the sender \<^verbatim>\<open>addr1\<close> posts one
  request to \<^verbatim>\<open>/buy-nft/\<close> whose \<open>nft_id\<close> is \<^verbatim>\<open>66051\<close>, whose \<open>payment_sender\<close> is
  \<^verbatim>\<open>addr1\<close>, and whose \<open>nft_receiver\<close> is \<open>bytesToHex\<close> of the public key: the prefix
  \<^verbatim>\<open>0x\<close> followed by 64 lower-case hexadecimal digits.
\<close>

theorem buyNFT_request_example:
  assumes "getPrivateKey L w = (Inr privateKey, v)"
    and "getPublicKeyAsync L privateKey = Inr publicKey"
    and "length publicKey = 32"
  shows "buyNFT L ''addr1'' [1, 2, 3] w =
           (Inr (),
            v\<lparr>fetched := fetched v @
               [POST ''http://127.0.0.1:7000/buy-nft/''
                  \<lparr>nft_id = ''66051'', payment_sender = ''addr1'',
                   nft_receiver = bytesToHex publicKey\<rparr>]\<rparr>)
         \<and> take 2 (bytesToHex publicKey) = ''0x''
         \<and> length (drop 2 (bytesToHex publicKey)) = 64
         \<and> set (drop 2 (bytesToHex publicKey)) \<subseteq> set ''0123456789abcdef''"
proof -
  have "buyNFT L ''addr1'' [1, 2, 3] w =
           (Inr (),
            v\<lparr>fetched := fetched v @
               [POST ''http://127.0.0.1:7000/buy-nft/''
                  \<lparr>nft_id = ''66051'', payment_sender = ''addr1'',
                   nft_receiver = bytesToHex publicKey\<rparr>]\<rparr>)"
    by (simp add: buyNFT_eq [OF assms(1)] assms(2) nft_id_123)
  moreover have "2 * length publicKey = 64"
    using assms(3) by simp
  ultimately show ?thesis
    using bytesToHex_shape [of publicKey] by (simp only: simp_thms)
qed

text \<open>The amended claim C2 in \<open>world0\<close>, where the key is generated by the call.\<close>

theorem buyNFT_request_example_witness:
  "getPrivateKey L0 world0 = (Inr (replicate 32 0), world1)
   \<and> getPublicKeyAsync L0 (replicate 32 0) = Inr (replicate 32 1)
   \<and> length (replicate 32 (1 :: byte)) = 32
   \<and> fetched (snd (buyNFT L0 ''addr1'' [1, 2, 3] world0)) =
       [POST ''http://127.0.0.1:7000/buy-nft/''
          \<lparr>nft_id = ''66051'', payment_sender = ''addr1'',
           nft_receiver = bytesToHex (replicate 32 1)\<rparr>]
   \<and> length (drop 2 (bytesToHex (replicate 32 1))) = 64"
proof -
  have len: "length (replicate 32 (1 :: byte)) = 32"
    by simp
  from buyNFT_request_example [OF world0_key L0_public_key len] world0_key L0_public_key
  show ?thesis
    by (simp add: world1_fetched)
qed

text \<open>
  Claim C2 as it is written asks for a receiver of 64 characters. In \<open>world0\<close> the
  request carries a receiver of 66 characters: \<open>bytesToHex\<close> writes the prefix \<^verbatim>\<open>0x\<close>,
  the same prefix that lets \<open>hexToNumberString\<close> read the identifier.
\<close>

theorem buyNFT_receiver_length_counterexample:
  "fetched (snd (buyNFT L0 ''addr1'' [1, 2, 3] world0)) =
     [POST ''http://127.0.0.1:7000/buy-nft/''
        \<lparr>nft_id = ''66051'', payment_sender = ''addr1'',
         nft_receiver =
           ''0x0101010101010101010101010101010101010101010101010101010101010101''\<rparr>]
   \<and> length ''0x0101010101010101010101010101010101010101010101010101010101010101'' \<noteq> 64"
  by (simp add: world0_buyNFT hex_ones)

subsection \<open>The listing\<close>

text \<open>
  Claim C3. \<open>getForSaleNFTs\<close> never rejects. Its result is the empty list when
  \<^verbatim>\<open>fetch\<close> throws and when the status is not 2xx; on a 2xx answer it is the list of the
  fetched records, in order, each passed through \<open>with_price\<close>, which sets \<^verbatim>\<open>price\<close> to
  10 and \<^verbatim>\<open>currency_symbol\<close> to \<^verbatim>\<open>PVL\<close> and leaves every other property as it was.
  (A 2xx answer whose body does not parse fetches no records: the result is empty.)
\<close>

theorem getForSaleNFTs_result:
  "fst (getForSaleNFTs w) =
     Inr (case network w (GET ''http://127.0.0.1:7000/listed-nfts/'') of
            Rejects e \<Rightarrow> []
          | Resolves r \<Rightarrow>
              if ok r
              then (case json_body r of Inl e \<Rightarrow> [] | Inr recs \<Rightarrow> map with_price recs)
              else [])
   \<and> map_of (with_price nft) =
       (map_of nft)(''price'' \<mapsto> JNum 10, ''currency_symbol'' \<mapsto> JStr ''PVL'')"
  by (simp add: getForSaleNFTs_eq map_of_with_price)

text \<open>
  Claim C3 in \<open>shop\<close>: both records come back in order; the first gets the two
  properties after its own, the second has its \<^verbatim>\<open>price\<close> replaced in place.
\<close>

theorem getForSaleNFTs_result_witness:
  "fst (getForSaleNFTs shop) =
     Inr [[(''name'', JStr ''ape''), (''price'', JNum 10), (''currency_symbol'', JStr ''PVL'')],
          [(''price'', JNum 10), (''name'', JStr ''cat''), (''currency_symbol'', JStr ''PVL'')]]"
  using getForSaleNFTs_result [of shop "[]"]
  by (simp add: shop_def world0_def ok_def with_price_def)

subsection \<open>The identity key\<close>

text \<open>
  Claim C4, amended. Provided that \<^verbatim>\<open>localStorage\<close> accepts reads and writes, the
  identity-key accessor is idempotent. After a call of \<open>getPrivateKey\<close> that returned the
  bytes \<open>s1\<close> and left the world \<open>w1\<close>, the next call returns \<open>s1\<close> again and changes
  nothing; and so does a call in any world \<open>w2\<close> whatever, as long as the entry under
  \<^verbatim>\<open>my-private-key\<close> is the one that \<open>w1\<close> holds and can be read. So no two calls return
  different seeds while that stored value remains.
\<close>

theorem getPrivateKey_idempotent:
  assumes "getItem_error w = None" and "setItem_error w = None"
    and "getPrivateKey L w = (Inr s1, w1)"
  shows "getPrivateKey L w1 = (Inr s1, w1)
    \<and> (getItem_error w2 = None
         \<and> storage w2 ''my-private-key'' = storage w1 ''my-private-key''
       \<longrightarrow> getPrivateKey L w2 = (Inr s1, w2))"
  using assms getPrivateKey_stable [of w L s1 w1] getPrivateKey_same_entry [of w L s1 w1 w2]
  by blast

text \<open>
  The amended claim C4 in \<open>world0\<close>: the first call generates the key and leaves
  \<open>world1\<close>; the calls in \<open>world1\<close> and in the later \<open>world2\<close> return the same key.
\<close>

theorem getPrivateKey_idempotent_witness:
  "getItem_error world0 = None \<and> setItem_error world0 = None
   \<and> getPrivateKey L0 world0 = (Inr (replicate 32 0), world1)
   \<and> getItem_error world2 = None
   \<and> storage world2 ''my-private-key'' = storage world1 ''my-private-key''
   \<and> getPrivateKey L0 world1 = (Inr (replicate 32 0), world1)
   \<and> getPrivateKey L0 world2 = (Inr (replicate 32 0), world2)"
proof -
  have g: "getItem_error world0 = None" and s: "setItem_error world0 = None"
    by (simp_all add: world0_def)
  have g2: "getItem_error world2 = None"
    and e: "storage world2 ''my-private-key'' = storage world1 ''my-private-key''"
    by (simp_all add: world2_def world1_def world0_def)
  from getPrivateKey_idempotent [OF g s world0_key, of world2] g s g2 e world0_key
  show ?thesis
    by simp
qed

text \<open>
  Claim C4 as it is written has no condition on the store. When the store refuses the
  write, \<open>setLocalStorage\<close> drops the failure, nothing is stored, and two calls in
  sequence return two different seeds while the entry of the store stays as it was.
\<close>

theorem getPrivateKey_two_seeds_counterexample:
  "getPrivateKey L0 full_store = (Inr (replicate 32 0), full_store\<lparr>entropy := replicate 32 1\<rparr>)
   \<and> getPrivateKey L0 (full_store\<lparr>entropy := replicate 32 1\<rparr>) =
       (Inr (replicate 32 1), full_store\<lparr>entropy := []\<rparr>)
   \<and> replicate 32 (0 :: byte) \<noteq> replicate 32 1
   \<and> storage (full_store\<lparr>entropy := replicate 32 1\<rparr>) = storage full_store"
proof -
  have a: "getLocalStorage ''my-private-key'' full_store = (Inr JNull, full_store)"
    by (simp add: getLocalStorage_eq full_store_def world0_def)
  have b: "getLocalStorage ''my-private-key'' (full_store\<lparr>entropy := replicate 32 1\<rparr>) =
      (Inr JNull, full_store\<lparr>entropy := replicate 32 1\<rparr>)"
    by (simp add: getLocalStorage_eq full_store_def world0_def)
  have "getPrivateKey L0 full_store = (Inr (replicate 32 0), full_store\<lparr>entropy := replicate 32 1\<rparr>)"
    by (simp add: getPrivateKey_absent [OF a]) (simp add: full_store_def world0_def L0_def)
  moreover have "getPrivateKey L0 (full_store\<lparr>entropy := replicate 32 1\<rparr>) =
       (Inr (replicate 32 1), full_store\<lparr>entropy := []\<rparr>)"
    by (simp add: getPrivateKey_absent [OF b]) (simp add: full_store_def world0_def L0_def)
  moreover have "replicate 32 (0 :: byte) \<noteq> replicate 32 1"
    by simp
  ultimately show ?thesis
    by simp
qed

text \<open>
  Claim C6, amended. When reading the store fails (\<^verbatim>\<open>getItem\<close> throws, or the stored text does
  not parse), \<open>getLocalStorage\<close> returns \<^verbatim>\<open>null\<close>, and \<open>getPrivateKey\<close> gives the result
  it gives with no stored key and a working read. If moreover the generator supplies 32
  bytes and their public key can be derived, \<open>getPrivateKey\<close> returns these 32 bytes, has
  consumed them, and has stored them unless the write failed too.
\<close>

theorem getPrivateKey_read_failure:
  assumes "getItem_error w = Some e \<or> storage w ''my-private-key'' = Some Malformed"
  shows "getLocalStorage ''my-private-key'' w = (Inr JNull, w)
    \<and> fst (getPrivateKey L w) =
        fst (getPrivateKey L
              (w\<lparr>getItem_error := None, storage := (storage w)(''my-private-key'' := None)\<rparr>))
    \<and> (32 \<le> length (entropy w) \<and> getPublicKeyAsync L (take 32 (entropy w)) = Inr pk \<longrightarrow>
         length (take 32 (entropy w)) = 32
         \<and> getPrivateKey L w =
             (Inr (take 32 (entropy w)),
              if setItem_error w = None
              then w\<lparr>entropy := drop 32 (entropy w),
                     storage := (storage w)(''my-private-key'' \<mapsto>
                                  JsonText (Array_from (take 32 (entropy w))))\<rparr>
              else w\<lparr>entropy := drop 32 (entropy w)\<rparr>))"
proof -
  let ?w' = "w\<lparr>getItem_error := None, storage := (storage w)(''my-private-key'' := None)\<rparr>"
  from assms have a: "getLocalStorage ''my-private-key'' w = (Inr JNull, w)"
    by (auto simp: getLocalStorage_eq split: option.splits)
  have b: "getLocalStorage ''my-private-key'' ?w' = (Inr JNull, ?w')"
    by (simp add: getLocalStorage_eq)
  have "fst (getPrivateKey L w) = fst (getPrivateKey L ?w')"
    by (simp add: getPrivateKey_absent [OF a] getPrivateKey_absent [OF b] split: sum.splits)
  with a show ?thesis
    by (simp add: getPrivateKey_absent [OF a])
qed

text \<open>
  Claim C6 in \<open>locked_store\<close>: the store holds a key of nines that cannot be read; the
  call returns the 32 fresh zeros and stores them over it.
\<close>

theorem getPrivateKey_read_failure_witness:
  "(getItem_error locked_store = Some (Exn ''SecurityError'')
      \<or> storage locked_store ''my-private-key'' = Some Malformed)
   \<and> 32 \<le> length (entropy locked_store)
   \<and> getPublicKeyAsync L0 (take 32 (entropy locked_store)) = Inr (replicate 32 1)
   \<and> getPrivateKey L0 locked_store =
       (Inr (replicate 32 0),
        locked_store\<lparr>entropy := replicate 32 1,
                     storage := [''my-private-key'' \<mapsto> JsonText (Array_from (replicate 32 0))]\<rparr>)"
proof -
  have h: "getItem_error locked_store = Some (Exn ''SecurityError'')
      \<or> storage locked_store ''my-private-key'' = Some Malformed"
    by (simp add: locked_store_def)
  have e: "entropy locked_store = replicate 32 0 @ replicate 32 1"
    and s: "setItem_error locked_store = None"
    by (simp_all add: locked_store_def world0_def)
  have k: "take 32 (entropy locked_store) = replicate 32 0"
    and d: "drop 32 (entropy locked_store) = replicate 32 1"
    and l: "32 \<le> length (entropy locked_store)"
    by (simp_all add: e)
  have p: "getPublicKeyAsync L0 (take 32 (entropy locked_store)) = Inr (replicate 32 1)"
    by (simp add: k L0_public_key)
  from getPrivateKey_read_failure [OF h, of L0 "replicate 32 1"] h l p show ?thesis
    by (simp add: k d s) (simp add: locked_store_def)
qed

text \<open>
  Claim C6 as it is written promises the fresh seed whenever the read fails. The branch
  that generates a key awaits the public key, only to print it, outside any \<^verbatim>\<open>try\<close>:
  in \<open>locked_store\<close> with the libraries \<open>L1\<close>, whose derivation throws, the call rejects
  with the failure of the derivation, after the fresh seed has been stored.
\<close>

theorem getPrivateKey_read_failure_counterexample:
  "getItem_error locked_store = Some (Exn ''SecurityError'')
   \<and> getPrivateKey L1 locked_store =
       (Inl (Exn ''crypto.subtle must be defined''),
        locked_store\<lparr>entropy := replicate 32 1,
                     storage := [''my-private-key'' \<mapsto> JsonText (Array_from (replicate 32 0))]\<rparr>)"
proof -
  have a: "getLocalStorage ''my-private-key'' locked_store = (Inr JNull, locked_store)"
    by (simp add: getLocalStorage_eq locked_store_def)
  show ?thesis
    by (simp add: getPrivateKey_absent [OF a]) (simp add: locked_store_def world0_def L1_def)
qed

subsection \<open>Failures of a purchase\<close>

text \<open>
  Claim C5. \<open>buyNFT\<close> never rejects: for every sender and identifier, and whatever the
  store, the random generator, the key derivation, the identifier encoding and the
  service do, the call resolves to \<^verbatim>\<open>undefined\<close>.
\<close>

theorem buyNFT_never_rejects: "fst (buyNFT L paymentSender nftId w) = Inr ()"
  by (simp add: buyNFT_def tryCatch_def ret_def split: prod.splits sum.splits)

subsection \<open>One encoding of the identifier\<close>

text \<open>
  Claim C10. \<open>buyNFT\<close> and \<open>checkPayment\<close> encode an identifier in the same way: for
  every identifier, if \<open>buyNFT\<close> posts a request and \<open>checkPayment\<close> calls the service,
  then the \<open>nft_id\<close> of the request is \<open>hexToNumberString\<close> of \<open>bytesToHex\<close> of the
  bytes, and the URL that \<open>checkPayment\<close> fetches is \<^verbatim>\<open>/check-payment/\<close> followed by it.
\<close>

theorem nft_id_encoding_agrees:
  assumes "fetched (snd (buyNFT L paymentSender ids w1)) = fetched w1 @ [POST u q]"
    and "fetched (snd (checkPayment L ids w2)) = fetched w2 @ [GET u']"
  shows "hexToNumberString L (bytesToHex (Uint8Array_from ids)) = Inr (nft_id q)
    \<and> u' = ''http://127.0.0.1:7000/check-payment/'' @ nft_id q"
proof -
  obtain r v where g: "getPrivateKey L w1 = (r, v)"
    by (cases "getPrivateKey L w1")
  then have f: "fetched v = fetched w1"
    using getPrivateKey_fetched [of L w1] by simp
  from assms(1) f have "hexToNumberString L (bytesToHex (Uint8Array_from ids)) = Inr (nft_id q)"
    by (auto simp: buyNFT_eq [OF g] split: sum.splits)
  with assms(2) show ?thesis
    by (simp add: checkPayment_eq)
qed

text \<open>Claim C10 for the identifier bytes 1, 2, 3 in \<open>world0\<close>.\<close>

theorem nft_id_encoding_agrees_witness:
  "fetched (snd (buyNFT L0 ''addr1'' [1, 2, 3] world0)) =
     fetched world0 @
     [POST ''http://127.0.0.1:7000/buy-nft/''
        \<lparr>nft_id = ''66051'', payment_sender = ''addr1'',
         nft_receiver = bytesToHex (replicate 32 1)\<rparr>]
   \<and> fetched (snd (checkPayment L0 [1, 2, 3] world0)) =
       fetched world0 @ [GET ''http://127.0.0.1:7000/check-payment/66051'']
   \<and> ''http://127.0.0.1:7000/check-payment/66051'' =
       ''http://127.0.0.1:7000/check-payment/'' @ ''66051''"
proof -
  have b: "fetched (snd (buyNFT L0 ''addr1'' [1, 2, 3] world0)) =
     fetched world0 @
     [POST ''http://127.0.0.1:7000/buy-nft/''
        \<lparr>nft_id = ''66051'', payment_sender = ''addr1'',
         nft_receiver = bytesToHex (replicate 32 1)\<rparr>]"
    by (simp add: world0_buyNFT world0_fetched)
  have c: "fetched (snd (checkPayment L0 [1, 2, 3] world0)) =
       fetched world0 @ [GET ''http://127.0.0.1:7000/check-payment/66051'']"
    by (simp add: checkPayment_eq nft_id_123)
  from nft_id_encoding_agrees [OF b c] b c show ?thesis
    by simp
qed

subsection \<open>The signature scheme\<close>

text \<open>
  The function \<^verbatim>\<open>sendTx\<close>, the only place that signs and verifies, is commented out in
  the module: no code of it runs, and nothing of it is embedded here.

  The derivation of the public key is the library call \<^verbatim>\<open>ed.getPublicKeyAsync\<close>. The
  module passes it the seed and forwards what it returns (lemma \<open>buyNFT_eq\<close>); what the
  derivation computes, and that it computes the same bytes every time, is a property of
  the library and not of the module. Here it is the field \<open>getPublicKeyAsync\<close> of
  \<open>libs\<close>, of which nothing is proved.
\<close>

end
